theory Spec2Isabelle
  imports Main
begin

section \<open>JavaScript values\<close>

text \<open>
  The components are written in TypeScript over React. A value that may be
  \<^verbatim>\<open>undefined\<close> or \<^verbatim>\<open>null\<close> is kept apart from a proper value, since the
  code passes both around (\<^verbatim>\<open>db ? db.id : null\<close>, \<^verbatim>\<open>setCurrentSchema(undefined)\<close>).
\<close>

datatype 'a js = Undefined | Null | Val 'a

text \<open>Truthiness of a number-or-nothing: \<^verbatim>\<open>0\<close>, \<^verbatim>\<open>null\<close> and \<^verbatim>\<open>undefined\<close> are falsy.\<close>

fun truthy :: "int js \<Rightarrow> bool" where
  "truthy (Val n) = (n \<noteq> 0)"
| "truthy Undefined = False"
| "truthy Null = False"

text \<open>\<^verbatim>\<open>a || b\<close> on such values.\<close>

definition js_or :: "int js \<Rightarrow> int js \<Rightarrow> int js" where
  "js_or a b = (if truthy a then a else b)"

text \<open>Decimal digits of a natural number, most significant first.\<close>

definition digit_char :: "nat \<Rightarrow> char" where
  "digit_char d = ''0123456789'' ! d"

fun digits :: "nat \<Rightarrow> string" where
  "digits n = (if n < 10 then [digit_char n]
               else digits (n div 10) @ [digit_char (n mod 10)])"

declare digits.simps [simp del]

text \<open>What a template literal \<^verbatim>\<open>${x}\<close> prints for an integer-valued number.\<close>

definition number_to_string :: "int \<Rightarrow> string" where
  "number_to_string i = (if i < 0 then CHR ''-'' # digits (nat (- i)) else digits (nat i))"

fun template_num :: "int js \<Rightarrow> string" where
  "template_num (Val n) = number_to_string n"
| "template_num Undefined = ''undefined''"
| "template_num Null = ''null''"

fun template_str :: "string js \<Rightarrow> string" where
  "template_str (Val s) = s"
| "template_str Undefined = ''undefined''"
| "template_str Null = ''null''"

section \<open>External libraries\<close>

text \<open>
  \<^verbatim>\<open>rison.encode\<close> and the translation function \<^verbatim>\<open>t\<close> are imported from
  packages outside the repository; the components are verified for any
  implementation of them. Only the shapes of the objects handed to
  \<^verbatim>\<open>rison.encode\<close> are modelled.
\<close>

datatype rison =
    RBool bool
  | RNum int
  | RStr string
  | RArr "rison list"
  | RObj "(string \<times> rison) list"

record libs =
  tr :: "string \<Rightarrow> string"
  rison_encode :: "rison \<Rightarrow> string"

section \<open>DatabaseSelector\<close>

subsection \<open>Props, state and observable effects\<close>

text \<open>
  A database row as the select hands it to \<^verbatim>\<open>changeDataBase\<close> (typed
  \<^verbatim>\<open>any\<close>); the refresh label passes \<^verbatim>\<open>{ id: dbId }\<close>, whose other fields
  are undefined.
\<close>

record database =
  id_db :: "int js"
  backend :: "string js"
  database_name :: "string js"

record database_option = database +
  label_db :: string

record schema_option =
  opt_value :: string
  opt_label :: string
  opt_title :: string

text \<open>
  \<^verbatim>\<open>DatabaseSelectorProps\<close>. The callbacks \<^verbatim>\<open>onSchemaChange\<close>,
  \<^verbatim>\<open>onDbChange\<close> and \<^verbatim>\<open>handleError\<close> are required; for each optional
  callback the props record whether the caller supplied it. A call of a
  callback is an event of the trace below; callbacks are taken to return
  normally.
\<close>

record selector_props =
  dbId :: "int js"
  schema :: "string js"
  has_onSchemasLoad :: bool
  has_getDbList :: bool
  has_getTableList :: bool
  formMode :: bool
  has_onChange :: bool

text \<open>The four \<^verbatim>\<open>useState\<close> cells.\<close>

record selector_state =
  currentDbId :: "int js"
  currentSchema :: "string js"
  schemaLoading :: bool
  schemaOptions :: "schema_option list"

text \<open>
  Everything a handler does besides returning: calls of the state setters,
  of the callbacks in the props, and of \<^verbatim>\<open>SupersetClient.get\<close>, in program
  order.
\<close>

datatype event =
    SetSchemaOptions "schema_option list"
  | SetSchemaLoading bool
  | SetCurrentDbId "int js"
  | SetCurrentSchema "string js"
  | Get string
  | OnSchemaChange "string js"
  | OnDbChange "database js"
  | OnSchemasLoad "schema_option list"
  | GetDbList "database list"
  | GetTableList "int js" "string js" bool
  | OnChange "int js" "string js"
  | HandleError string

text \<open>
  A state setter called in a handler does not change the values the running
  closure sees; the queued updates are applied, in order, for the next render.
\<close>

fun apply_event :: "event \<Rightarrow> selector_state \<Rightarrow> selector_state" where
  "apply_event (SetSchemaOptions os) s = s\<lparr>schemaOptions := os\<rparr>"
| "apply_event (SetSchemaLoading b) s = s\<lparr>schemaLoading := b\<rparr>"
| "apply_event (SetCurrentDbId d) s = s\<lparr>currentDbId := d\<rparr>"
| "apply_event (SetCurrentSchema c) s = s\<lparr>currentSchema := c\<rparr>"
| "apply_event _ s = s"

definition apply_events :: "event list \<Rightarrow> selector_state \<Rightarrow> selector_state" where
  "apply_events es s = fold apply_event es s"

text \<open>The initial state of the component: \<^verbatim>\<open>useState(dbId)\<close>, \<^verbatim>\<open>useState(schema)\<close>,
  \<^verbatim>\<open>useState(false)\<close>, \<^verbatim>\<open>useState([])\<close>.\<close>

definition initial_state :: "selector_props \<Rightarrow> selector_state" where
  "initial_state p =
     \<lparr>currentDbId = dbId p, currentSchema = schema p,
      schemaLoading = False, schemaOptions = []\<rparr>"

subsection \<open>fetchSchemas\<close>

text \<open>What \<^verbatim>\<open>fetchSchemas\<close> returns: the chained promise of the request it
  issued, or \<^verbatim>\<open>Promise.resolve()\<close>.\<close>

datatype fetch_promise = AwaitingGet string | AlreadyResolved

definition schemas_endpoint :: "libs \<Rightarrow> int js \<Rightarrow> bool \<Rightarrow> string" where
  "schemas_endpoint L actualDbId forceRefresh =
     (let queryParams = rison_encode L (RObj [(''force'', RBool forceRefresh)])
      in ''/api/v1/database/'' @ template_num actualDbId @ ''/schemas/?q='' @ queryParams)"

definition fetchSchemas ::
  "libs \<Rightarrow> selector_props \<Rightarrow> int js \<Rightarrow> bool \<Rightarrow> event list \<times> fetch_promise" where
  "fetchSchemas L p databaseId forceRefresh =
     (let actualDbId = js_or databaseId (dbId p) in
      if truthy actualDbId then
        (let endpoint = schemas_endpoint L actualDbId forceRefresh
         in ([SetSchemaLoading True, Get endpoint], AwaitingGet endpoint))
      else ([], AlreadyResolved))"

text \<open>
  How the request ends: the promise of \<^verbatim>\<open>SupersetClient.get\<close> rejects, or
  fulfils with a body whose \<^verbatim>\<open>result\<close> is an array of schema names or is
  missing (then \<^verbatim>\<open>json.result.map\<close> throws a TypeError inside the
  \<^verbatim>\<open>then\<close> handler).
\<close>

datatype get_outcome = GetRejected | GetJson "string list js"

datatype js_error = TypeError

datatype settled = Fulfilled | Rejected js_error

definition schema_options_of :: "string list \<Rightarrow> schema_option list" where
  "schema_options_of result =
     map (\<lambda>s. \<lparr>opt_value = s, opt_label = s, opt_title = s\<rparr>) result"

text \<open>The \<^verbatim>\<open>then\<close> handler: the events it makes, or the error it throws
  before making any.\<close>

definition fetchSchemas_then :: "selector_props \<Rightarrow> string list js \<Rightarrow> js_error + event list" where
  "fetchSchemas_then p json_result =
     (case json_result of
        Val result \<Rightarrow>
          (let options = schema_options_of result
           in Inr ([SetSchemaOptions options, SetSchemaLoading False]
                   @ (if has_onSchemasLoad p then [OnSchemasLoad options] else [])))
      | Undefined \<Rightarrow> Inl TypeError
      | Null \<Rightarrow> Inl TypeError)"

text \<open>The \<^verbatim>\<open>catch\<close> handler.\<close>

definition fetchSchemas_catch :: "libs \<Rightarrow> event list" where
  "fetchSchemas_catch L =
     [SetSchemaOptions [], SetSchemaLoading False,
      HandleError (tr L ''Error while fetching schema list'')]"

text \<open>
  The chain \<^verbatim>\<open>get(...).then(h).catch(c)\<close>: \<^verbatim>\<open>c\<close> runs when the request
  rejects and when \<^verbatim>\<open>h\<close> throws; the chained promise is fulfilled once a
  handler has returned. The result is the events made and how the promise
  returned by \<^verbatim>\<open>fetchSchemas\<close> settles.
\<close>

definition fetchSchemas_settle ::
  "libs \<Rightarrow> selector_props \<Rightarrow> get_outcome \<Rightarrow> event list \<times> settled" where
  "fetchSchemas_settle L p outcome =
     (case outcome of
        GetRejected \<Rightarrow> (fetchSchemas_catch L, Fulfilled)
      | GetJson json_result \<Rightarrow>
          (case fetchSchemas_then p json_result of
             Inr es \<Rightarrow> (es, Fulfilled)
           | Inl err \<Rightarrow> (fetchSchemas_catch L, Fulfilled)))"

text \<open>A fetch fails when the request rejects or the \<^verbatim>\<open>then\<close> handler throws.\<close>

definition fetch_fails :: "selector_props \<Rightarrow> get_outcome \<Rightarrow> bool" where
  "fetch_fails p outcome =
     (case outcome of
        GetRejected \<Rightarrow> True
      | GetJson json_result \<Rightarrow> isl (fetchSchemas_then p json_result))"

subsection \<open>The handlers\<close>

text \<open>The effect \<^verbatim>\<open>useEffect(..., [currentDbId])\<close>, run after the first render
  and after each render in which \<^verbatim>\<open>currentDbId\<close> changed.\<close>

definition currentDbId_effect :: "libs \<Rightarrow> selector_props \<Rightarrow> selector_state \<Rightarrow> event list" where
  "currentDbId_effect L p s =
     (if truthy (currentDbId s) then fst (fetchSchemas L p (currentDbId s) False) else [])"

definition onSelectChange :: "selector_props \<Rightarrow> selector_state \<Rightarrow> event list" where
  "onSelectChange p s =
     (if has_onChange p then [OnChange (currentDbId s) (currentSchema s)] else [])"

definition access_message :: string where
  "access_message = ''It seems you don'' @ [CHR 0x27] @ ''t have access to any database''"

text \<open>\<^verbatim>\<open>dbMutator\<close>: the events, and the rows with their labels.\<close>

definition dbMutator ::
  "libs \<Rightarrow> selector_props \<Rightarrow> database list \<Rightarrow> event list \<times> database_option list" where
  "dbMutator L p data_result =
     ((if has_getDbList p then [GetDbList data_result] else [])
      @ (if length data_result = 0 then [HandleError (tr L access_message)] else []),
      map (\<lambda>row. database.extend row
                    \<lparr>label_db = template_str (backend row) @ '' '' @ template_str (database_name row)\<rparr>)
          data_result)"

text \<open>\<^verbatim>\<open>db ? db.id : null\<close>\<close>

definition selected_id :: "database js \<Rightarrow> int js" where
  "selected_id db = (case db of Val d \<Rightarrow> id_db d | Undefined \<Rightarrow> Null | Null \<Rightarrow> Null)"

text \<open>\<^verbatim>\<open>changeDataBase(db, force)\<close>; the local \<^verbatim>\<open>dbId\<close> shadows the prop.\<close>

definition changeDataBase ::
  "libs \<Rightarrow> selector_props \<Rightarrow> selector_state \<Rightarrow> database js \<Rightarrow> bool \<Rightarrow> event list" where
  "changeDataBase L p s db force =
     (let dbId' = selected_id db in
      [SetSchemaOptions [], OnSchemaChange Null, OnDbChange db]
      @ fst (fetchSchemas L p dbId' force)
      @ [SetCurrentDbId dbId', SetCurrentSchema Undefined]
      @ onSelectChange p s)"

text \<open>\<^verbatim>\<open>changeSchema(schemaOpt, force)\<close>.\<close>

definition changeSchema ::
  "selector_props \<Rightarrow> selector_state \<Rightarrow> schema_option js \<Rightarrow> bool \<Rightarrow> event list" where
  "changeSchema p s schemaOpt force =
     (let schema' = (case schemaOpt of Val opt \<Rightarrow> Val (opt_value opt)
                                     | Undefined \<Rightarrow> Null | Null \<Rightarrow> Null) in
      [OnSchemaChange schema', SetCurrentSchema schema']
      @ onSelectChange p s
      @ (if has_getTableList p then [GetTableList (currentDbId s) schema' force] else []))"

text \<open>The calls of \<^verbatim>\<open>handleError\<close> and of \<^verbatim>\<open>onChange\<close> among some events,
  by their arguments.\<close>

fun handleError_call :: "event \<Rightarrow> string list" where
  "handleError_call (HandleError m) = [m]"
| "handleError_call _ = []"

definition handleError_calls :: "event list \<Rightarrow> string list" where
  "handleError_calls es = concat (map handleError_call es)"

fun onChange_call :: "event \<Rightarrow> (int js \<times> string js) list" where
  "onChange_call (OnChange d c) = [(d, c)]"
| "onChange_call _ = []"

definition onChange_calls :: "event list \<Rightarrow> (int js \<times> string js) list" where
  "onChange_calls es = concat (map onChange_call es)"

text \<open>The endpoint \<^verbatim>\<open>renderDatabaseSelect\<close> gives the asynchronous select.\<close>

definition database_list_endpoint :: "libs \<Rightarrow> selector_props \<Rightarrow> string" where
  "database_list_endpoint L p =
     (let queryParams = rison_encode L (RObj
        ([(''order_columns'', RStr ''database_name''),
          (''order_direction'', RStr ''asc''),
          (''page'', RNum 0),
          (''page_size'', RNum (- 1))]
         @ (if formMode p then []
            else [(''filters'', RArr [RObj [(''col'', RStr ''expose_in_sqllab''),
                                            (''opr'', RStr ''eq''),
                                            (''value'', RBool True)]])])))
      in ''/api/v1/database/?q='' @ queryParams)"

subsection \<open>The mounted component\<close>

text \<open>
  The component between events: its state, the requests of
  \<^verbatim>\<open>SupersetClient.get\<close> not yet settled (by endpoint, oldest first; none is
  ever cancelled), and the trace of all events so far. The props stay those
  of the first render.
\<close>

record sys =
  sel :: selector_state
  inflight :: "string list"
  trace :: "event list"

fun request_of :: "event \<Rightarrow> string list" where
  "request_of (Get endpoint) = [endpoint]"
| "request_of _ = []"

definition commit :: "sys \<Rightarrow> event list \<Rightarrow> sys" where
  "commit y es =
     \<lparr>sel = apply_events es (sel y),
      inflight = inflight y @ concat (map request_of es),
      trace = trace y @ es\<rparr>"

text \<open>A handler has run: its updates are committed, and the effect runs when
  \<^verbatim>\<open>currentDbId\<close> changed.\<close>

definition handled :: "libs \<Rightarrow> selector_props \<Rightarrow> sys \<Rightarrow> event list \<Rightarrow> sys" where
  "handled L p y es =
     (let y' = commit y es in
      if currentDbId (sel y') \<noteq> currentDbId (sel y)
      then commit y' (currentDbId_effect L p (sel y'))
      else y')"

definition mount :: "libs \<Rightarrow> selector_props \<Rightarrow> sys" where
  "mount L p =
     commit \<lparr>sel = initial_state p, inflight = [], trace = []\<rparr>
            (currentDbId_effect L p (initial_state p))"

text \<open>What can happen next: the user picks a database or a schema, or the
  \<open>i\<close>-th request in flight settles.\<close>

datatype action =
    ChangeDataBase "database js" bool
  | ChangeSchema "schema_option js" bool
  | Settle nat get_outcome

fun step :: "libs \<Rightarrow> selector_props \<Rightarrow> sys \<Rightarrow> action \<Rightarrow> sys" where
  "step L p y (ChangeDataBase db force) =
     handled L p y (changeDataBase L p (sel y) db force)"
| "step L p y (ChangeSchema schemaOpt force) =
     handled L p y (changeSchema p (sel y) schemaOpt force)"
| "step L p y (Settle i outcome) =
     (if i < length (inflight y)
      then handled L p (y\<lparr>inflight := take i (inflight y) @ drop (Suc i) (inflight y)\<rparr>)
                   (fst (fetchSchemas_settle L p outcome))
      else y)"

definition run :: "libs \<Rightarrow> selector_props \<Rightarrow> action list \<Rightarrow> sys" where
  "run L p acts = foldl (step L p) (mount L p) acts"

text \<open>
  A sample of the libraries for concrete runs: no translation catalogue, and
  the encoding rison gives an object with one boolean field, the only shape
  \<^verbatim>\<open>fetchSchemas\<close> encodes (\<^verbatim>\<open>(force:!t)\<close>, \<^verbatim>\<open>(force:!f)\<close>).
\<close>

definition rison_flag :: "rison \<Rightarrow> string" where
  "rison_flag r =
     (case r of
        RObj [(k, RBool b)] \<Rightarrow> ''('' @ k @ '':'' @ (if b then ''!t'' else ''!f'') @ '')''
      | _ \<Rightarrow> [])"

definition sample_libs :: libs where
  "sample_libs = \<lparr>tr = (\<lambda>s. s), rison_encode = rison_flag\<rparr>"

section \<open>Import modals\<close>

text \<open>
  \<^verbatim>\<open>DashboardProps\<close> and \<^verbatim>\<open>DatasetProps\<close> have the same fields; the
  callbacks \<^verbatim>\<open>onHide\<close>, \<^verbatim>\<open>onSubmit\<close> and \<^verbatim>\<open>onFileSelect\<close> are required and
  their calls are events.
\<close>

record import_props =
  show_prop :: bool
  error :: "string js"

record 'f dashboard_state =
  dashboardFile :: "'f js"

record 'f dataset_state =
  datasetFile :: "'f js"

datatype ('e, 'f) modal_event =
    OnHide 'e
  | OnSubmit "'f js"
  | OnFileSelect
  | PreventDefault
  | StopPropagation

text \<open>\<^verbatim>\<open>!!error?.length\<close>\<close>

fun has_length :: "string js \<Rightarrow> bool" where
  "has_length (Val s) = (length s \<noteq> 0)"
| "has_length Undefined = False"
| "has_length Null = False"

text \<open>\<^verbatim>\<open>!x\<close> for a file object or nothing.\<close>

fun js_not :: "'f js \<Rightarrow> bool" where
  "js_not (Val f) = False"
| "js_not Undefined = True"
| "js_not Null = True"

text \<open>\<^verbatim>\<open>(files && files[0]) || undefined\<close>\<close>

fun first_file :: "'f list js \<Rightarrow> 'f js" where
  "first_file (Val (f # fs)) = Val f"
| "first_file (Val []) = Undefined"
| "first_file Undefined = Undefined"
| "first_file Null = Undefined"

subsection \<open>ImportDashboardModal\<close>

definition dashboard_initial :: "'f dashboard_state" where
  "dashboard_initial = \<lparr>dashboardFile = Undefined\<rparr>"

definition dashboard_onCancel ::
  "'f dashboard_state \<Rightarrow> 'e \<Rightarrow> 'f dashboard_state \<times> ('e, 'f) modal_event list" where
  "dashboard_onCancel s e = (s\<lparr>dashboardFile := Undefined\<rparr>, [OnHide e])"

definition dashboard_changeFile ::
  "'f dashboard_state \<Rightarrow> 'f list js \<Rightarrow> 'f dashboard_state \<times> ('e, 'f) modal_event list" where
  "dashboard_changeFile s files = (s\<lparr>dashboardFile := first_file files\<rparr>, [OnFileSelect])"

definition dashboard_submit :: "'f dashboard_state \<Rightarrow> ('e, 'f) modal_event list" where
  "dashboard_submit s = [PreventDefault, StopPropagation, OnSubmit (dashboardFile s)]"

text \<open>The \<^verbatim>\<open>disabled\<close> attribute \<^verbatim>\<open>render\<close> gives the Upload button.\<close>

definition dashboard_upload_disabled :: "import_props \<Rightarrow> 'f dashboard_state \<Rightarrow> bool" where
  "dashboard_upload_disabled p s = (js_not (dashboardFile s) \<or> has_length (error p))"

text \<open>Whether \<^verbatim>\<open>render\<close> shows the alert with the error.\<close>

definition dashboard_alert_shown :: "import_props \<Rightarrow> bool" where
  "dashboard_alert_shown p = has_length (error p)"

text \<open>A click on the Upload button, of type \<^verbatim>\<open>submit\<close>: a disabled button
  does nothing, an enabled one submits the form, whose handler is \<^verbatim>\<open>submit\<close>.\<close>

definition dashboard_click_upload ::
  "import_props \<Rightarrow> 'f dashboard_state \<Rightarrow> ('e, 'f) modal_event list" where
  "dashboard_click_upload p s =
     (if dashboard_upload_disabled p s then [] else dashboard_submit s)"

subsection \<open>ImportDatasetModal\<close>

definition dataset_initial :: "'f dataset_state" where
  "dataset_initial = \<lparr>datasetFile = Undefined\<rparr>"

definition dataset_onCancel ::
  "'f dataset_state \<Rightarrow> 'e \<Rightarrow> 'f dataset_state \<times> ('e, 'f) modal_event list" where
  "dataset_onCancel s e = (s\<lparr>datasetFile := Undefined\<rparr>, [OnHide e])"

definition dataset_changeFile ::
  "'f dataset_state \<Rightarrow> 'f list js \<Rightarrow> 'f dataset_state \<times> ('e, 'f) modal_event list" where
  "dataset_changeFile s files = (s\<lparr>datasetFile := first_file files\<rparr>, [OnFileSelect])"

definition dataset_submit :: "'f dataset_state \<Rightarrow> ('e, 'f) modal_event list" where
  "dataset_submit s = [PreventDefault, StopPropagation, OnSubmit (datasetFile s)]"

definition dataset_upload_disabled :: "import_props \<Rightarrow> 'f dataset_state \<Rightarrow> bool" where
  "dataset_upload_disabled p s = (js_not (datasetFile s) \<or> has_length (error p))"

definition dataset_alert_shown :: "import_props \<Rightarrow> bool" where
  "dataset_alert_shown p = has_length (error p)"

definition dataset_click_upload ::
  "import_props \<Rightarrow> 'f dataset_state \<Rightarrow> ('e, 'f) modal_event list" where
  "dataset_click_upload p s =
     (if dataset_upload_disabled p s then [] else dataset_submit s)"

section \<open>Import helpers of the API modules\<close>

text \<open>
  \<^verbatim>\<open>encodeURI\<close> on a string of bytes: letters, digits, the marks
  \<^verbatim>\<open>-_.!~*'()\<close> and the reserved characters \<^verbatim>\<open>;/?:@&=+$,#\<close> stay, every
  other byte becomes \<^verbatim>\<open>%XX\<close>.
\<close>

definition uri_unescaped :: "char \<Rightarrow> bool" where
  "uri_unescaped c =
     (c \<in> set (''ABCDEFGHIJKLMNOPQRSTUVWXYZabcdefghijklmnopqrstuvwxyz0123456789''
               @ ''-_.!~*()'' @ [CHR 0x27] @ '';/?:@&=+$,#''))"

definition hex_char :: "nat \<Rightarrow> char" where
  "hex_char d = ''0123456789ABCDEF'' ! d"

definition percent_encode :: "char \<Rightarrow> string" where
  "percent_encode c =
     [CHR ''%'', hex_char ((of_char c :: nat) div 16), hex_char ((of_char c :: nat) mod 16)]"

definition encodeURI :: "string \<Rightarrow> string" where
  "encodeURI s = concat (map (\<lambda>c. if uri_unescaped c then [c] else percent_encode c) s)"

text \<open>A \<^verbatim>\<open>FormData\<close> is its list of entries; \<^verbatim>\<open>append\<close> adds one at the end.\<close>

type_synonym 'f form_data = "(string \<times> 'f) list"

definition form_data_append :: "'f form_data \<Rightarrow> string \<Rightarrow> 'f \<Rightarrow> 'f form_data" where
  "form_data_append fd name v = fd @ [(name, v)]"

text \<open>The argument of \<^verbatim>\<open>SupersetClient.post\<close>.\<close>

record 'f post_request =
  endpoint :: string
  body :: "'f form_data"

text \<open>\<^verbatim>\<open>post\<close> of the dashboard module: the request it sends.\<close>

definition post :: "'f \<Rightarrow> 'f post_request" where
  "post file =
     (let endpoint' = encodeURI ''/api/v1/dashboard/import/'';
          formData = form_data_append [] ''formData'' file
      in \<lparr>endpoint = endpoint', body = formData\<rparr>)"

text \<open>\<^verbatim>\<open>importDataset\<close> of the dataset module: the request it sends.\<close>

definition importDataset :: "'f \<Rightarrow> 'f post_request" where
  "importDataset file =
     (let endpoint' = encodeURI ''/api/v1/dataset/import/'';
          formData = form_data_append [] ''formData'' file
      in \<lparr>endpoint = endpoint', body = formData\<rparr>)"

section \<open>ChartTable\<close>

definition PAGE_SIZE :: int where
  "PAGE_SIZE = 3"

record sort_spec =
  sort_id :: string
  desc :: bool

datatype filter_value = StringValue string | BoolValue bool

record filter_spec =
  filter_id :: string
  operator :: string
  filter_value :: filter_value

record page_request =
  pageIndex :: int
  pageSize :: int
  sortBy :: "sort_spec list"
  filters :: "filter_spec list"

text \<open>The \<^verbatim>\<open>user\<close> prop is optional; \<^verbatim>\<open>userId\<close> is a number.\<close>

record user =
  userId :: int

text \<open>\<^verbatim>\<open>`${user?.userId}`\<close>\<close>

fun template_userId :: "user js \<Rightarrow> string" where
  "template_userId (Val u) = number_to_string (userId u)"
| "template_userId Undefined = ''undefined''"
| "template_userId Null = ''undefined''"

definition getFilters :: "user js \<Rightarrow> string \<Rightarrow> filter_spec list" where
  "getFilters usr filterName =
     (if filterName = ''Mine''
      then [] @ [\<lparr>filter_id = ''created_by'', operator = ''rel_o_m'',
                  filter_value = StringValue (template_userId usr)\<rparr>]
      else [] @ [\<lparr>filter_id = ''id'', operator = ''chart_is_fav'',
                  filter_value = BoolValue True\<rparr>])"

text \<open>\<^verbatim>\<open>getData\<close> calls the \<^verbatim>\<open>fetchData\<close> it got from the hook
  \<^verbatim>\<open>useListViewResource\<close> and returns what that returns.\<close>

definition getData :: "(page_request \<Rightarrow> 'a) \<Rightarrow> user js \<Rightarrow> string \<Rightarrow> 'a" where
  "getData fetchData' usr filter' =
     fetchData' \<lparr>pageIndex = 0, pageSize = PAGE_SIZE,
                 sortBy = [\<lparr>sort_id = ''changed_on_delta_humanized'', desc = True\<rparr>],
                 filters = getFilters usr filter'\<rparr>"

subsection \<open>The resource fetcher\<close>

record 'r list_view_state =
  resourceCollection :: "'r list"
  resourceCount :: nat

text \<open>
  Modelled from the spec: \<^verbatim>\<open>fetchData\<close> of the hook \<^verbatim>\<open>useListViewResource\<close>
  (\<^verbatim>\<open>src/views/CRUD/hooks\<close>), which is not among the sources. The spec: the
  fetcher issues exactly one request with the parameters of the page request
  encoded. The value is the list of requests issued, each by the page request
  it carries.
\<close>

definition fetchData :: "page_request \<Rightarrow> page_request list" where
  "fetchData pageRequest = [pageRequest]"

text \<open>
  Modelled from the spec: what \<^verbatim>\<open>fetchData\<close> of \<^verbatim>\<open>useListViewResource\<close>
  does when its request succeeds. The spec: it updates the resource collection
  with the \<^verbatim>\<open>result\<close> array of the server, and the total count.
\<close>

definition fetchData_success ::
  "'r list_view_state \<Rightarrow> 'r list \<Rightarrow> nat \<Rightarrow> 'r list_view_state" where
  "fetchData_success s result count' = s\<lparr>resourceCollection := result, resourceCount := count'\<rparr>"

section \<open>Properties of the DatabaseSelector\<close>

subsection \<open>Applying the queued updates\<close>

lemma apply_events_append:
  "apply_events (xs @ ys) s = apply_events ys (apply_events xs s)"
  by (simp add: apply_events_def)

lemma apply_events_Cons:
  "apply_events (e # es) s = apply_events es (apply_event e s)"
  by (simp add: apply_events_def)

lemma apply_events_Nil: "apply_events [] s = s"
  by (simp add: apply_events_def)

lemma fetchSchemas_events:
  "fst (fetchSchemas L p d f) =
     (if truthy (js_or d (dbId p))
      then [SetSchemaLoading True, Get (schemas_endpoint L (js_or d (dbId p)) f)] else [])"
  by (simp add: fetchSchemas_def Let_def)

lemma apply_fetchSchemas_events:
  "apply_events (fst (fetchSchemas L p d f)) s =
     (if truthy (js_or d (dbId p)) then s\<lparr>schemaLoading := True\<rparr> else s)"
  by (simp add: fetchSchemas_events apply_events_Cons apply_events_Nil)

lemma apply_onSelectChange: "apply_events (onSelectChange p s') s = s"
  by (simp add: onSelectChange_def apply_events_Cons apply_events_Nil)

lemma apply_changeDataBase:
  "apply_events (changeDataBase L p s db force) s0 =
     s0\<lparr>schemaOptions := [], currentDbId := selected_id db, currentSchema := Undefined,
        schemaLoading := (if truthy (js_or (selected_id db) (dbId p)) then True
                          else schemaLoading s0)\<rparr>"
  by (simp add: changeDataBase_def Let_def apply_events_append apply_events_Cons
      apply_events_Nil apply_fetchSchemas_events apply_onSelectChange)

lemma apply_effect:
  "apply_events (currentDbId_effect L p s') s =
     (if truthy (currentDbId s') then s\<lparr>schemaLoading := True\<rparr> else s)"
  by (simp add: currentDbId_effect_def apply_fetchSchemas_events js_or_def apply_events_Nil)

lemma requests_changeDataBase:
  "concat (map request_of (changeDataBase L p s db force)) =
     (if truthy (js_or (selected_id db) (dbId p))
      then [schemas_endpoint L (js_or (selected_id db) (dbId p)) force] else [])"
  by (simp add: changeDataBase_def Let_def fetchSchemas_events onSelectChange_def)

lemma requests_effect:
  "concat (map request_of (currentDbId_effect L p s)) =
     (if truthy (currentDbId s) then [schemas_endpoint L (currentDbId s) False] else [])"
  by (simp add: currentDbId_effect_def fetchSchemas_events js_or_def)

subsection \<open>Changing the database\<close>

text \<open>
  Claim C1, as the code has it. Whatever the component was doing, once
  \<^verbatim>\<open>changeDataBase(db, force)\<close> has run the schema options are empty, the
  schema selection is \<^verbatim>\<open>undefined\<close> and the selected id is the new one,
  while the requests this call issued (the one of \<^verbatim>\<open>fetchSchemas\<close>, and
  the one of the effect when the id changed to a truthy one) are still in
  flight behind the older ones: the clearing comes before any of them
  settles. Nothing is said about what a request issued earlier installs when
  it settles afterwards.
\<close>

theorem changeDataBase_clears_first:
  "schemaOptions (sel (step L p y (ChangeDataBase db force))) = []
   \<and> currentSchema (sel (step L p y (ChangeDataBase db force))) = Undefined
   \<and> currentDbId (sel (step L p y (ChangeDataBase db force))) = selected_id db
   \<and> inflight (step L p y (ChangeDataBase db force)) =
       inflight y
       @ (if truthy (js_or (selected_id db) (dbId p))
          then [schemas_endpoint L (js_or (selected_id db) (dbId p)) force] else [])
       @ (if selected_id db \<noteq> currentDbId (sel y) \<and> truthy (selected_id db)
          then [schemas_endpoint L (selected_id db) False] else [])"
  by (simp add: handled_def commit_def Let_def apply_changeDataBase apply_effect
      requests_changeDataBase requests_effect)

text \<open>
  Claim C1 as stated fails: a schema option of a previously selected database
  can be present after the database changed. The component is mounted with
  database 1, whose schema request is in flight; the user selects database 2;
  then the request for database 1 settles with the schema list of database 1.
  The selected id is 2 and the options shown are those of database 1.
\<close>

theorem stale_schema_counterexample:
  "currentDbId (sel (run sample_libs
       \<lparr>dbId = Val 1, schema = Undefined, has_onSchemasLoad = False, has_getDbList = False,
        has_getTableList = False, formMode = False, has_onChange = False\<rparr>
       [ChangeDataBase (Val \<lparr>id_db = Val 2, backend = Val ''postgresql'',
                             database_name = Val ''two''\<rparr>) False]))
     = Val 2
   \<and> inflight (run sample_libs
       \<lparr>dbId = Val 1, schema = Undefined, has_onSchemasLoad = False, has_getDbList = False,
        has_getTableList = False, formMode = False, has_onChange = False\<rparr>
       [ChangeDataBase (Val \<lparr>id_db = Val 2, backend = Val ''postgresql'',
                             database_name = Val ''two''\<rparr>) False]) ! 0
     = ''/api/v1/database/1/schemas/?q=(force:!f)''
   \<and> sel (run sample_libs
       \<lparr>dbId = Val 1, schema = Undefined, has_onSchemasLoad = False, has_getDbList = False,
        has_getTableList = False, formMode = False, has_onChange = False\<rparr>
       [ChangeDataBase (Val \<lparr>id_db = Val 2, backend = Val ''postgresql'',
                             database_name = Val ''two''\<rparr>) False,
        Settle 0 (GetJson (Val [''schema_of_db_1'']))])
     = \<lparr>currentDbId = Val 2, currentSchema = Undefined, schemaLoading = False,
        schemaOptions = [\<lparr>opt_value = ''schema_of_db_1'', opt_label = ''schema_of_db_1'',
                          opt_title = ''schema_of_db_1''\<rparr>]\<rparr>"
  by code_simp

text \<open>
  Claim C9. In one call of \<^verbatim>\<open>changeDataBase\<close>, \<^verbatim>\<open>onChange\<close> (when supplied)
  is called exactly once, with the \<^verbatim>\<open>currentDbId\<close> and \<^verbatim>\<open>currentSchema\<close> of
  the state the handler was rendered with; the queued updates then make the
  selected id the new one and the schema \<^verbatim>\<open>undefined\<close>.
\<close>

theorem changeDataBase_onChange_previous:
  "onChange_calls (changeDataBase L p s db force) =
     (if has_onChange p then [(currentDbId s, currentSchema s)] else [])
   \<and> currentDbId (apply_events (changeDataBase L p s db force) s) = selected_id db
   \<and> currentSchema (apply_events (changeDataBase L p s db force) s) = Undefined"
  by (simp add: apply_changeDataBase)
    (auto simp: changeDataBase_def onChange_calls_def fetchSchemas_events onSelectChange_def
      Let_def)

subsection \<open>Fetching the schema list\<close>

text \<open>
  Claim C8. For a database id \<open>n\<close> (a number other than 0; what a falsy
  argument does is claim C10) and any \<open>forceRefresh\<close>,
  \<^verbatim>\<open>fetchSchemas\<close> issues one request, to
  \<^verbatim>\<open>/api/v1/database/n/schemas/?q=Q\<close> where \<open>Q\<close> is what \<^verbatim>\<open>rison.encode\<close>
  gives for the object whose only field is \<^verbatim>\<open>force\<close>, with the value of
  \<open>forceRefresh\<close>.
\<close>

theorem fetchSchemas_endpoint:
  "n \<noteq> 0 \<Longrightarrow>
   fetchSchemas L p (Val n) forceRefresh =
     ([SetSchemaLoading True,
       Get (''/api/v1/database/'' @ number_to_string n @ ''/schemas/?q=''
            @ rison_encode L (RObj [(''force'', RBool forceRefresh)]))],
      AwaitingGet (''/api/v1/database/'' @ number_to_string n @ ''/schemas/?q=''
            @ rison_encode L (RObj [(''force'', RBool forceRefresh)])))"
  by (simp add: fetchSchemas_def js_or_def Let_def schemas_endpoint_def)

text \<open>Claim C8 at database 12 with a forced refresh, and at database 7 without.\<close>

theorem fetchSchemas_endpoint_witness:
  "(12::int) \<noteq> 0
   \<and> fetchSchemas sample_libs
        \<lparr>dbId = Val 3, schema = Undefined, has_onSchemasLoad = False, has_getDbList = False,
         has_getTableList = False, formMode = False, has_onChange = False\<rparr> (Val 12) True
      = ([SetSchemaLoading True, Get ''/api/v1/database/12/schemas/?q=(force:!t)''],
         AwaitingGet ''/api/v1/database/12/schemas/?q=(force:!t)'')
   \<and> (7::int) \<noteq> 0
   \<and> fetchSchemas sample_libs
        \<lparr>dbId = Val 3, schema = Undefined, has_onSchemasLoad = False, has_getDbList = False,
         has_getTableList = False, formMode = False, has_onChange = False\<rparr> (Val 7) False
      = ([SetSchemaLoading True, Get ''/api/v1/database/7/schemas/?q=(force:!f)''],
         AwaitingGet ''/api/v1/database/7/schemas/?q=(force:!f)'')"
proof -
  have n12: "number_to_string 12 = ''12''" by code_simp
  have n7: "number_to_string 7 = ''7''" by code_simp
  have h12: "(12::int) \<noteq> 0" and h7: "(7::int) \<noteq> 0" by simp_all
  show ?thesis
    using fetchSchemas_endpoint [OF h12, where L = sample_libs and forceRefresh = True]
      fetchSchemas_endpoint [OF h7, where L = sample_libs and forceRefresh = False]
    by (simp add: n12 n7 sample_libs_def rison_flag_def)
qed

text \<open>
  Claim C10. When the \<open>databaseId\<close> passed is falsy, \<^verbatim>\<open>fetchSchemas\<close> uses
  the \<^verbatim>\<open>dbId\<close> prop: if the prop is truthy the request for the prop's
  database is issued; if it is falsy too, nothing is done and the promise
  returned is already resolved. And for any argument \<open>d\<close>, nothing is done
  and the resolved promise is returned only when \<open>d\<close> and the prop are both
  falsy.
\<close>

theorem fetchSchemas_falsy_fallback:
  "(\<not> truthy databaseId \<longrightarrow>
    fetchSchemas L p databaseId forceRefresh =
      (if truthy (dbId p)
       then ([SetSchemaLoading True, Get (schemas_endpoint L (dbId p) forceRefresh)],
             AwaitingGet (schemas_endpoint L (dbId p) forceRefresh))
       else ([], AlreadyResolved)))
   \<and> ((fetchSchemas L p d f = ([], AlreadyResolved)) = (\<not> truthy d \<and> \<not> truthy (dbId p)))"
  by (simp add: fetchSchemas_def js_or_def Let_def)

text \<open>Claim C10 at \<^verbatim>\<open>null\<close> with the prop 5, and at 0 with the prop 0.\<close>

theorem fetchSchemas_falsy_fallback_witness:
  "\<not> truthy Null
   \<and> fetchSchemas sample_libs
        \<lparr>dbId = Val 5, schema = Undefined, has_onSchemasLoad = False, has_getDbList = False,
         has_getTableList = False, formMode = False, has_onChange = False\<rparr> Null False
      = ([SetSchemaLoading True, Get ''/api/v1/database/5/schemas/?q=(force:!f)''],
         AwaitingGet ''/api/v1/database/5/schemas/?q=(force:!f)'')
   \<and> \<not> truthy (Val 0)
   \<and> fetchSchemas sample_libs
        \<lparr>dbId = Val 0, schema = Undefined, has_onSchemasLoad = False, has_getDbList = False,
         has_getTableList = False, formMode = False, has_onChange = False\<rparr> (Val 0) True
      = ([], AlreadyResolved)"
proof -
  have n5: "number_to_string 5 = ''5''" by code_simp
  have hn: "\<not> truthy Null" and h0: "\<not> truthy (Val 0)" by simp_all
  show ?thesis
    using hn h0
      fetchSchemas_falsy_fallback [where databaseId = Null and L = sample_libs
        and forceRefresh = False
        and p = "\<lparr>dbId = Val 5, schema = Undefined, has_onSchemasLoad = False,
          has_getDbList = False, has_getTableList = False, formMode = False,
          has_onChange = False\<rparr>"]
      fetchSchemas_falsy_fallback [where databaseId = "Val 0" and L = sample_libs
        and forceRefresh = True
        and p = "\<lparr>dbId = Val 0, schema = Undefined, has_onSchemasLoad = False,
          has_getDbList = False, has_getTableList = False, formMode = False,
          has_onChange = False\<rparr>"]
    by (simp add: n5 schemas_endpoint_def sample_libs_def rison_flag_def)
qed

text \<open>
  Claim C2. When a schema request fails (the request rejects, or the
  \<^verbatim>\<open>then\<close> handler throws), the \<^verbatim>\<open>catch\<close> handler sets the schema options
  to the empty list, sets the loading flag to false and calls
  \<^verbatim>\<open>handleError\<close> once with the message; the selected database id and schema
  stay as they were, and the promise \<^verbatim>\<open>fetchSchemas\<close> returned is
  fulfilled, not rejected.
\<close>

theorem fetch_failure_handled:
  "fetch_fails p outcome \<Longrightarrow>
   fetchSchemas_settle L p outcome =
     ([SetSchemaOptions [], SetSchemaLoading False,
       HandleError (tr L ''Error while fetching schema list'')], Fulfilled)
   \<and> schemaOptions (apply_events (fst (fetchSchemas_settle L p outcome)) s) = []
   \<and> schemaLoading (apply_events (fst (fetchSchemas_settle L p outcome)) s) = False
   \<and> currentDbId (apply_events (fst (fetchSchemas_settle L p outcome)) s) = currentDbId s
   \<and> currentSchema (apply_events (fst (fetchSchemas_settle L p outcome)) s) = currentSchema s"
  by (auto simp: fetch_fails_def fetchSchemas_settle_def fetchSchemas_catch_def
      apply_events_Cons apply_events_Nil split: get_outcome.splits sum.splits)

text \<open>Claim C2 at a rejected request for database 4, with options of an
  earlier response on display.\<close>

theorem fetch_failure_handled_witness:
  "fetch_fails
     \<lparr>dbId = Val 4, schema = Undefined, has_onSchemasLoad = True, has_getDbList = False,
      has_getTableList = False, formMode = False, has_onChange = False\<rparr> GetRejected
   \<and> fetchSchemas_settle sample_libs
       \<lparr>dbId = Val 4, schema = Undefined, has_onSchemasLoad = True, has_getDbList = False,
        has_getTableList = False, formMode = False, has_onChange = False\<rparr> GetRejected
     = ([SetSchemaOptions [], SetSchemaLoading False,
         HandleError ''Error while fetching schema list''], Fulfilled)
   \<and> apply_events (fst (fetchSchemas_settle sample_libs
       \<lparr>dbId = Val 4, schema = Undefined, has_onSchemasLoad = True, has_getDbList = False,
        has_getTableList = False, formMode = False, has_onChange = False\<rparr> GetRejected))
       \<lparr>currentDbId = Val 4, currentSchema = Val ''main'', schemaLoading = True,
        schemaOptions = schema_options_of [''main'', ''tmp'']\<rparr>
     = \<lparr>currentDbId = Val 4, currentSchema = Val ''main'', schemaLoading = False,
        schemaOptions = []\<rparr>"
proof -
  have h: "fetch_fails
     \<lparr>dbId = Val 4, schema = Undefined, has_onSchemasLoad = True, has_getDbList = False,
      has_getTableList = False, formMode = False, has_onChange = False\<rparr> GetRejected"
    by (simp add: fetch_fails_def)
  show ?thesis
    using h fetch_failure_handled [OF h, where L = sample_libs
        and s = "\<lparr>currentDbId = Val 4, currentSchema = Val ''main'', schemaLoading = True,
          schemaOptions = schema_options_of [''main'', ''tmp'']\<rparr>"]
    by (simp add: sample_libs_def apply_events_Cons apply_events_Nil)
qed

subsection \<open>The database list\<close>

text \<open>
  Claim C4. Processing one response of the database list, \<^verbatim>\<open>dbMutator\<close>
  calls \<^verbatim>\<open>handleError\<close> exactly once, with the access message, when the
  \<^verbatim>\<open>result\<close> array has length zero, and does not call it when the array
  is not empty.
\<close>

theorem dbMutator_access_error_once:
  "handleError_calls (fst (dbMutator L p rows)) =
     (if length rows = 0 then [tr L access_message] else [])"
  by (simp add: dbMutator_def handleError_calls_def)

section \<open>Properties of the import modals\<close>

lemma has_length_iff: "has_length x = (\<exists>e. x = Val e \<and> e \<noteq> [])"
  by (cases x) simp_all

lemma js_not_iff: "js_not f = (f = Undefined \<or> f = Null)"
  by (cases f) simp_all

text \<open>
  Claim C3. In both modals, for any props and state, the Upload button is
  rendered disabled exactly when no file is held in the state or the
  \<^verbatim>\<open>error\<close> prop is a string that is not empty; with no file in the state a
  click on the button triggers nothing, in particular no call of
  \<^verbatim>\<open>onSubmit\<close>.
\<close>

theorem upload_disabled_iff:
  "(dashboard_upload_disabled p s =
      (dashboardFile s = Undefined \<or> dashboardFile s = Null
       \<or> (\<exists>e. error p = Val e \<and> e \<noteq> [])))
   \<and> (dataset_upload_disabled p t =
      (datasetFile t = Undefined \<or> datasetFile t = Null
       \<or> (\<exists>e. error p = Val e \<and> e \<noteq> [])))
   \<and> dashboard_click_upload p (s\<lparr>dashboardFile := Undefined\<rparr>) = []
   \<and> dataset_click_upload p (t\<lparr>datasetFile := Undefined\<rparr>) = []"
  by (simp add: dashboard_upload_disabled_def dataset_upload_disabled_def
      dashboard_click_upload_def dataset_click_upload_def has_length_iff js_not_iff)

text \<open>
  Claim C5. In both modals \<^verbatim>\<open>onCancel(e)\<close> leaves the file in the state
  \<^verbatim>\<open>undefined\<close>, whatever it was, and calls \<^verbatim>\<open>onHide\<close> exactly once, with
  \<open>e\<close>, and nothing else.
\<close>

theorem onCancel_clears_and_hides:
  "dashboardFile (fst (dashboard_onCancel s e)) = Undefined
   \<and> snd (dashboard_onCancel s e) = [OnHide e]
   \<and> datasetFile (fst (dataset_onCancel t e)) = Undefined
   \<and> snd (dataset_onCancel t e) = [OnHide e]"
  by (simp add: dashboard_onCancel_def dataset_onCancel_def)

section \<open>Properties of the import helpers\<close>

lemma encodeURI_dashboard:
  "encodeURI ''/api/v1/dashboard/import/'' = ''/api/v1/dashboard/import/''"
  by code_simp

lemma encodeURI_dataset:
  "encodeURI ''/api/v1/dataset/import/'' = ''/api/v1/dataset/import/''"
  by code_simp

text \<open>
  Claim C6. For every file, the dashboard helper posts to
  \<^verbatim>\<open>/api/v1/dashboard/import/\<close> and the dataset helper to
  \<^verbatim>\<open>/api/v1/dataset/import/\<close>, each with a form data whose only entry is the
  file under the name \<^verbatim>\<open>formData\<close>.
\<close>

theorem import_requests:
  "post f = \<lparr>endpoint = ''/api/v1/dashboard/import/'', body = [(''formData'', f)]\<rparr>
   \<and> importDataset f = \<lparr>endpoint = ''/api/v1/dataset/import/'', body = [(''formData'', f)]\<rparr>"
  by (simp add: post_def importDataset_def Let_def form_data_append_def
      encodeURI_dashboard encodeURI_dataset)

section \<open>Properties of the chart table\<close>

lemma number_to_string_42: "number_to_string 42 = ''42''"
  by code_simp

text \<open>
  Claim C7. For the user with id 42 and the filter \<^verbatim>\<open>Mine\<close>, \<^verbatim>\<open>getData\<close> is
  one call of the \<^verbatim>\<open>fetchData\<close> it was given, with the page request of the
  claim; with the fetcher of the spec that is exactly one request carrying
  this page request, and on success the resource collection is the
  \<^verbatim>\<open>result\<close> array of the response.
\<close>

theorem getData_mine_42:
  "getData fetchData' (Val \<lparr>userId = 42\<rparr>) ''Mine'' =
     fetchData' \<lparr>pageIndex = 0, pageSize = 3,
       sortBy = [\<lparr>sort_id = ''changed_on_delta_humanized'', desc = True\<rparr>],
       filters = [\<lparr>filter_id = ''created_by'', operator = ''rel_o_m'',
                   filter_value = StringValue ''42''\<rparr>]\<rparr>
   \<and> getData fetchData (Val \<lparr>userId = 42\<rparr>) ''Mine'' =
     [\<lparr>pageIndex = 0, pageSize = 3,
       sortBy = [\<lparr>sort_id = ''changed_on_delta_humanized'', desc = True\<rparr>],
       filters = [\<lparr>filter_id = ''created_by'', operator = ''rel_o_m'',
                   filter_value = StringValue ''42''\<rparr>]\<rparr>]
   \<and> resourceCollection (fetchData_success st result n) = result"
  by (simp add: getData_def getFilters_def fetchData_def PAGE_SIZE_def fetchData_success_def
      number_to_string_42)

end
